theory Spec2Isabelle
  imports Main "HOL-Library.Sublist"
begin

section \<open>Naming conventions of \<^verbatim>\<open>conventions.py\<close>\<close>

text \<open>
  The module is a list of top-level assignments and six small functions on strings.
  Python's \<^verbatim>\<open>str\<close> is modelled as \<^typ>\<open>string\<close>; concatenation \<^verbatim>\<open>+\<close> is \<open>@\<close>;
  \<^verbatim>\<open>len\<close> is \<^const>\<open>length\<close>; the slice \<^verbatim>\<open>p[n:]\<close> with \<open>n \<ge> 0\<close> is \<^term>\<open>drop n p\<close>
  (a slice never raises: past the end it is the empty string, as \<^const>\<open>drop\<close> is).
\<close>

subsection \<open>Errors\<close>

text \<open>
  \<^verbatim>\<open>NameError\<close>, \<^verbatim>\<open>AttributeError\<close>, \<^verbatim>\<open>KeyError\<close> and \<^verbatim>\<open>TypeError\<close> are the built-in
  exceptions that reading an unbound global, reading a missing attribute, subscripting a
  dict with a missing key and calling with the wrong number of arguments raise. \<^verbatim>\<open>InvalidNameError\<close> and \<^verbatim>\<open>UnknownKindError\<close> are the
  two error names of the specification; no statement of the module raises them.
\<close>

datatype error =
  NameError | AttributeError | KeyError | TypeError | InvalidNameError | UnknownKindError

subsection \<open>Separator and field names (lines 36 and 41 to 46)\<close>

definition derived_par_name_separator :: string where
  "derived_par_name_separator = ''__''"

record OutPar_class =
  weight :: string
  minuslogpost :: string
  minuslogprior :: string
  chi2 :: string

definition OutPar :: OutPar_class where
  "OutPar = \<lparr>weight = ''weight'', minuslogpost = ''minuslogpost'',
             minuslogprior = ''minuslogprior'', chi2 = ''chi2''\<rparr>"

subsection \<open>The compound-name functions (lines 52 to 73)\<close>

text \<open>\<^verbatim>\<open>str(p)\<close> of a \<^verbatim>\<open>str\<close> is the string itself.\<close>

definition str :: "string \<Rightarrow> string" where
  "str p = p"

definition get_chi2_name :: "string \<Rightarrow> string" where
  "get_chi2_name p = chi2 OutPar @ derived_par_name_separator @ str p"

definition undo_chi2_name :: "string \<Rightarrow> string" where
  "undo_chi2_name p = drop (length (chi2 OutPar @ derived_par_name_separator)) p"

definition get_minuslogpior_name :: "string \<Rightarrow> string" where
  "get_minuslogpior_name piname = minuslogprior OutPar @ derived_par_name_separator @ piname"

text \<open>The two list comprehensions, as the loops they are.\<close>

fun minuslogprior_names :: "string list \<Rightarrow> string list" where
  "minuslogprior_names [] = []"
| "minuslogprior_names (piname # prior) = get_minuslogpior_name piname # minuslogprior_names prior"

fun chi2_names :: "string list \<Rightarrow> string list" where
  "chi2_names [] = []"
| "chi2_names (likname # likes) = get_chi2_name likname # chi2_names likes"

text \<open>
  A call of \<^verbatim>\<open>undo_chi2_name\<close> on a \<^verbatim>\<open>str\<close> as an outcome: the body is one slice
  expression and has no \<^verbatim>\<open>raise\<close>, so the call always returns.
\<close>

definition undo_chi2_name_outcome :: "string \<Rightarrow> error + string" where
  "undo_chi2_name_outcome p = Inr (undo_chi2_name p)"

text \<open>Python's \<^verbatim>\<open>s.startswith(pre)\<close> and \<^verbatim>\<open>sub in s\<close> on strings.\<close>

definition startswith :: "string \<Rightarrow> string \<Rightarrow> bool" where
  "startswith s pre = prefix pre s"

definition contains :: "string \<Rightarrow> string \<Rightarrow> bool" where
  "contains s sub = sublist sub s"

text \<open>
  Modelled from the spec: the decompose helper for \<^verbatim>\<open>minuslogprior\<close> names, which the
  module does not define (it has \<^verbatim>\<open>get_minuslogpior_name\<close> only). The specification
  calls it symmetric to the \<^verbatim>\<open>chi2\<close> one, whose contract there is: the input is expected
  to begin with the base token and the separator, the output is the substring following
  that prefix, and the call fails with \<^verbatim>\<open>InvalidNameError\<close> when the prefix is absent.
\<close>

definition decomposeMinusLogPriorName :: "string \<Rightarrow> error + string" where
  "decomposeMinusLogPriorName compound =
     (if startswith compound (minuslogprior OutPar @ derived_par_name_separator)
      then Inr (drop (length (minuslogprior OutPar @ derived_par_name_separator)) compound)
      else Inl InvalidNameError)"

subsection \<open>Module globals that are bound more than once\<close>

text \<open>
  Three global names are assigned twice: \<^verbatim>\<open>kinds\<close> (lines 23 and 175),
  \<^verbatim>\<open>reserved_attributes\<close> (lines 27 and 179) and \<^verbatim>\<open>subfolders\<close> (lines 109 and 226).
  Importing the module runs its statements top to bottom, and an assignment replaces the
  binding of its name. The globals are a record of optional bindings (\<open>None\<close>: not yet
  bound), and each assignment is a function on that record. The other statements of the
  module bind other names and leave these three alone.
\<close>

record ComponentKinds =
  sampler :: string
  "theory" :: string
  likelihood :: string

text \<open>\<^verbatim>\<open>ComponentKinds._fields\<close>: the field names of the named tuple, in order.\<close>

definition ComponentKinds_fields :: "string list" where
  "ComponentKinds_fields = [''sampler'', ''theory'', ''likelihood'']"

text \<open>
  The constructor call \<^verbatim>\<open>ComponentKinds(*args)\<close>: three positional arguments; any other
  number is refused (\<open>None\<close> here, a \<^verbatim>\<open>TypeError\<close> in the statement that calls it).
\<close>

fun make_ComponentKinds :: "string list \<Rightarrow> ComponentKinds option" where
  "make_ComponentKinds [a, b, c] = Some \<lparr>sampler = a, theory = b, likelihood = c\<rparr>"
| "make_ComponentKinds _ = None"

datatype kinds_value = Tuple "string list" | Named ComponentKinds

type_synonym dict = "string \<rightharpoonup> string"

text \<open>A dict display inserts its items from left to right; a repeated key keeps the last value.\<close>

definition dict_of :: "(string \<times> string) list \<Rightarrow> dict" where
  "dict_of items = fold (\<lambda>(k, v) d. d(k \<mapsto> v)) items Map.empty"

record globals =
  kinds :: "kinds_value option"
  reserved_attributes :: "string set option"
  subfolders :: "dict option"

definition unbound :: globals where
  "unbound = \<lparr>kinds = None, reserved_attributes = None, subfolders = None\<rparr>"

text \<open>Lines 148 and 149: the underscored names, bound once.\<close>

definition private_input_params :: string where
  "private_input_params = ''input_params''"

definition private_output_params :: string where
  "private_output_params = ''output_params''"

definition line_23 :: "globals \<Rightarrow> error + globals" where
  "line_23 g = Inr (g\<lparr>kinds := Some (Tuple [''sampler'', ''theory'', ''likelihood''])\<rparr>)"

definition line_27 :: "globals \<Rightarrow> error + globals" where
  "line_27 g = Inr (g\<lparr>reserved_attributes :=
     Some {''input_params'', ''output_params'', ''install_options'',
           ''bibtex_file'', ''file_base_name''}\<rparr>)"

definition line_109 :: "globals \<Rightarrow> error + globals" where
  "line_109 g = Inr (g\<lparr>subfolders :=
     Some (dict_of [(''likelihood'', ''likelihoods''),
                    (''sampler'', ''samplers''),
                    (''theory'', ''theories'')])\<rparr>)"

definition line_175 :: "globals \<Rightarrow> error + globals" where
  "line_175 g =
     (case make_ComponentKinds ComponentKinds_fields of
        None \<Rightarrow> Inl TypeError
      | Some k \<Rightarrow> Inr (g\<lparr>kinds := Some (Named k)\<rparr>))"

definition line_179 :: "globals \<Rightarrow> error + globals" where
  "line_179 g = Inr (g\<lparr>reserved_attributes :=
     Some {private_input_params, private_output_params, ''install_options'', ''bibtex_file''}\<rparr>)"

text \<open>
  Line 226 reads the attributes of \<^verbatim>\<open>kinds\<close>: a plain tuple (the binding of line 23) has
  none of them.
\<close>

definition line_226 :: "globals \<Rightarrow> error + globals" where
  "line_226 g =
     (case kinds g of
        None \<Rightarrow> Inl NameError
      | Some (Tuple _) \<Rightarrow> Inl AttributeError
      | Some (Named k) \<Rightarrow>
          Inr (g\<lparr>subfolders :=
            Some (dict_of [(likelihood k, ''likelihoods''),
                           (sampler k, ''samplers''),
                           (theory k, ''theories'')])\<rparr>))"

definition module_body :: "(globals \<Rightarrow> error + globals) list" where
  "module_body = [line_23, line_27, line_109, line_175, line_179, line_226]"

text \<open>Running statements in order; the first exception ends the run.\<close>

fun run :: "(globals \<Rightarrow> error + globals) list \<Rightarrow> globals \<Rightarrow> error + globals" where
  "run [] g = Inr g"
| "run (stmt # stmts) g = (case stmt g of Inl e \<Rightarrow> Inl e | Inr g' \<Rightarrow> run stmts g')"

text \<open>The globals after the first \<open>n\<close> of these statements, and after the whole module.\<close>

definition conventions_upto :: "nat \<Rightarrow> error + globals" where
  "conventions_upto n = run (take n module_body) unbound"

definition conventions :: "error + globals" where
  "conventions = run module_body unbound"

text \<open>
  What a user of the module evaluates: \<^verbatim>\<open>name in reserved_attributes\<close> and
  \<^verbatim>\<open>subfolders[kind]\<close>, in given globals.
\<close>

definition reserved_attributes_contains :: "globals \<Rightarrow> string \<Rightarrow> error + bool" where
  "reserved_attributes_contains g name =
     (case reserved_attributes g of None \<Rightarrow> Inl NameError | Some s \<Rightarrow> Inr (name \<in> s))"

definition subfolders_getitem :: "globals \<Rightarrow> string \<Rightarrow> error + string" where
  "subfolders_getitem g kind =
     (case subfolders g of
        None \<Rightarrow> Inl NameError
      | Some d \<Rightarrow> (case d kind of None \<Rightarrow> Inl KeyError | Some v \<Rightarrow> Inr v))"

text \<open>The same two expressions, evaluated after the first \<open>n\<close> statements and after the import.\<close>

definition is_reserved_upto :: "nat \<Rightarrow> string \<Rightarrow> error + bool" where
  "is_reserved_upto n name =
     (case conventions_upto n of Inl e \<Rightarrow> Inl e | Inr g \<Rightarrow> reserved_attributes_contains g name)"

definition is_reserved :: "string \<Rightarrow> error + bool" where
  "is_reserved name =
     (case conventions of Inl e \<Rightarrow> Inl e | Inr g \<Rightarrow> reserved_attributes_contains g name)"

definition subfolder_for :: "string \<Rightarrow> error + string" where
  "subfolder_for kind =
     (case conventions of Inl e \<Rightarrow> Inl e | Inr g \<Rightarrow> subfolders_getitem g kind)"


section \<open>Properties\<close>

subsection \<open>Shared facts\<close>

lemma chi2_prefix_literal: "chi2 OutPar @ derived_par_name_separator = ''chi2__''"
  by (simp add: OutPar_def derived_par_name_separator_def)

lemma minuslogprior_prefix_literal:
  "minuslogprior OutPar @ derived_par_name_separator = ''minuslogprior__''"
  by (simp add: OutPar_def derived_par_name_separator_def)

lemma get_chi2_name_append: "get_chi2_name p = ''chi2__'' @ p"
  using chi2_prefix_literal by (simp add: get_chi2_name_def str_def)

lemma chi2_prefix_length: "length (chi2 OutPar @ derived_par_name_separator) = 6"
  by (simp add: OutPar_def derived_par_name_separator_def)

lemma undo_chi2_name_drop: "undo_chi2_name p = drop 6 p"
  by (simp only: undo_chi2_name_def chi2_prefix_length)

lemma undo_get_chi2_name: "undo_chi2_name (get_chi2_name s) = s"
  by (simp add: undo_chi2_name_drop get_chi2_name_append)

lemma minuslogprior_prefix_length:
  "length (minuslogprior OutPar @ derived_par_name_separator) = 15"
  by (simp add: OutPar_def derived_par_name_separator_def)

lemma get_minuslogpior_name_append: "get_minuslogpior_name p = ''minuslogprior__'' @ p"
  using minuslogprior_prefix_literal by (simp add: get_minuslogpior_name_def)

lemma decompose_get_minuslogpior_name:
  "decomposeMinusLogPriorName (get_minuslogpior_name s) = Inr s"
  by (simp add: decomposeMinusLogPriorName_def get_minuslogpior_name_def startswith_def)

lemma chi2_names_map: "chi2_names likes = map get_chi2_name likes"
  by (induction likes) simp_all

lemma minuslogprior_names_map: "minuslogprior_names prior = map get_minuslogpior_name prior"
  by (induction prior) simp_all

text \<open>The globals once the module is imported.\<close>

lemma conventions_value:
  "conventions =
     Inr \<lparr>kinds = Some (Named \<lparr>sampler = ''sampler'', theory = ''theory'',
                                 likelihood = ''likelihood''\<rparr>),
          reserved_attributes =
            Some {''input_params'', ''output_params'', ''install_options'', ''bibtex_file''},
          subfolders =
            Some (dict_of [(''likelihood'', ''likelihoods''), (''sampler'', ''samplers''),
                           (''theory'', ''theories'')])\<rparr>"
  by (simp add: conventions_def module_body_def unbound_def line_23_def line_27_def line_109_def
      line_175_def line_179_def line_226_def ComponentKinds_fields_def
      private_input_params_def private_output_params_def)

lemma conventions_upto_all: "6 \<le> n \<Longrightarrow> conventions_upto n = conventions"
  by (simp add: conventions_upto_def conventions_def module_body_def)

text \<open>Between line 27 and line 179 the first set is bound; from line 179 on, the second.\<close>

lemma reserved_upto_early:
  "n \<in> {2, 3, 4} \<Longrightarrow>
     \<exists>g. conventions_upto n = Inr g \<and> reserved_attributes g =
       Some {''input_params'', ''output_params'', ''install_options'',
             ''bibtex_file'', ''file_base_name''}"
  by (auto simp add: conventions_upto_def module_body_def unbound_def line_23_def line_27_def
      line_109_def line_175_def ComponentKinds_fields_def eval_nat_numeral)

lemma reserved_upto_5:
  "\<exists>g. conventions_upto 5 = Inr g \<and> reserved_attributes g =
     Some {''input_params'', ''output_params'', ''install_options'', ''bibtex_file''}"
  by (simp add: conventions_upto_def module_body_def unbound_def line_23_def line_27_def
      line_109_def line_175_def line_179_def ComponentKinds_fields_def eval_nat_numeral
      private_input_params_def private_output_params_def)

lemma is_reserved_upto_stable:
  assumes "2 \<le> n"
  shows "is_reserved_upto n ''input_params'' = Inr True"
    and "is_reserved_upto n ''arbitrary_unrelated_name'' = Inr False"
proof -
  consider "n \<in> {2, 3, 4}" | "n = 5" | "6 \<le> n" using assms by force
  then have "is_reserved_upto n ''input_params'' = Inr True
     \<and> is_reserved_upto n ''arbitrary_unrelated_name'' = Inr False"
  proof cases
    case 1
    from reserved_upto_early [OF this] show ?thesis
      by (auto simp add: is_reserved_upto_def reserved_attributes_contains_def)
  next
    case 2
    with reserved_upto_5 show ?thesis
      by (auto simp add: is_reserved_upto_def reserved_attributes_contains_def)
  next
    case 3
    then show ?thesis
      by (simp add: is_reserved_upto_def conventions_upto_all conventions_value
          reserved_attributes_contains_def)
  qed
  then show "is_reserved_upto n ''input_params'' = Inr True"
    and "is_reserved_upto n ''arbitrary_unrelated_name'' = Inr False" by simp_all
qed

lemma subfolder_for_cases:
  "subfolder_for kind =
    (if kind = ''theory'' then Inr ''theories''
     else if kind = ''sampler'' then Inr ''samplers''
     else if kind = ''likelihood'' then Inr ''likelihoods''
     else Inl KeyError)"
  by (simp add: subfolder_for_def conventions_value subfolders_getitem_def dict_of_def)

subsection \<open>Composition\<close>

text \<open>
  C3. For every string \<open>p\<close>, \<^verbatim>\<open>get_chi2_name(p)\<close> is \<^verbatim>\<open>"chi2" + "__" + p\<close>; on
  \<^verbatim>\<open>"planck_2018"\<close> it gives \<^verbatim>\<open>"chi2__planck_2018"\<close>, and \<^verbatim>\<open>undo_chi2_name\<close> gives
  \<^verbatim>\<open>"planck_2018"\<close> back from that.
\<close>

theorem get_chi2_name_concat:
  "get_chi2_name p = ''chi2'' @ ''__'' @ p
   \<and> get_chi2_name ''planck_2018'' = ''chi2__planck_2018''
   \<and> undo_chi2_name ''chi2__planck_2018'' = ''planck_2018''"
  by (simp add: get_chi2_name_append undo_chi2_name_drop)

text \<open>
  C7. For every string \<open>p\<close>, \<^verbatim>\<open>get_minuslogpior_name(p)\<close> is
  \<^verbatim>\<open>"minuslogprior" + "__" + p\<close>; on \<^verbatim>\<open>"H0"\<close> it gives \<^verbatim>\<open>"minuslogprior__H0"\<close>.
\<close>

theorem get_minuslogpior_name_concat:
  "get_minuslogpior_name p = ''minuslogprior'' @ ''__'' @ p
   \<and> get_minuslogpior_name ''H0'' = ''minuslogprior__H0''"
  using minuslogprior_prefix_literal by (simp add: get_minuslogpior_name_def)

text \<open>
  C4. \<^verbatim>\<open>chi2_names\<close> and \<^verbatim>\<open>minuslogprior_names\<close> apply their compose function to each
  element: the result is the map of the input, of the same length, with the \<open>i\<close>-th output
  the composed \<open>i\<close>-th input; \<open>[a, b, c]\<close> goes to the three composed names in that order,
  and the empty list to the empty list.
\<close>

theorem names_elementwise:
  "chi2_names likes = map get_chi2_name likes
   \<and> minuslogprior_names prior = map get_minuslogpior_name prior
   \<and> length (chi2_names likes) = length likes
   \<and> length (minuslogprior_names prior) = length prior
   \<and> (i < length likes \<longrightarrow> chi2_names likes ! i = get_chi2_name (likes ! i))
   \<and> (j < length prior \<longrightarrow> minuslogprior_names prior ! j = get_minuslogpior_name (prior ! j))
   \<and> chi2_names [a, b, c] = [get_chi2_name a, get_chi2_name b, get_chi2_name c]
   \<and> minuslogprior_names [a, b, c]
       = [get_minuslogpior_name a, get_minuslogpior_name b, get_minuslogpior_name c]
   \<and> chi2_names [] = [] \<and> minuslogprior_names [] = []"
  by (simp add: chi2_names_map minuslogprior_names_map)

theorem names_elementwise_witness:
  "(1::nat) < length [''planck_2018'', ''lensing'']
   \<and> chi2_names [''planck_2018'', ''lensing''] ! 1 = ''chi2__lensing''
   \<and> (0::nat) < length [''H0'']
   \<and> minuslogprior_names [''H0''] ! 0 = ''minuslogprior__H0''"
  using names_elementwise [of "[''planck_2018'', ''lensing'']" "[''H0'']" 1 0]
  by (simp add: get_chi2_name_append get_minuslogpior_name_append)

subsection \<open>Decomposition\<close>

text \<open>
  C1. For every non-empty string \<open>s\<close> that does not contain the separator \<^verbatim>\<open>"__"\<close>,
  \<^verbatim>\<open>undo_chi2_name(get_chi2_name(s))\<close> is \<open>s\<close>.
\<close>

theorem chi2_roundtrip:
  "s \<noteq> [] \<Longrightarrow> \<not> contains s derived_par_name_separator
   \<Longrightarrow> undo_chi2_name (get_chi2_name s) = s"
  by (rule undo_get_chi2_name)

theorem chi2_roundtrip_witness:
  "''planck_2018'' \<noteq> [] \<and> \<not> contains ''planck_2018'' derived_par_name_separator
   \<and> undo_chi2_name (get_chi2_name ''planck_2018'') = ''planck_2018''"
proof -
  have ne: "''planck_2018'' \<noteq> []" by simp
  have nc: "\<not> contains ''planck_2018'' derived_par_name_separator"
    by (simp add: contains_def derived_par_name_separator_def sublist_code)
  from ne nc chi2_roundtrip [OF ne nc] show ?thesis by blast
qed

text \<open>
  C9. With no precondition on \<open>p\<close>, \<^verbatim>\<open>undo_chi2_name(p)\<close> is \<open>p\<close> without its first
  \<^verbatim>\<open>len("chi2__")\<close> = 6 characters, the empty string when \<open>p\<close> has fewer than 6; so the
  round trip through \<^verbatim>\<open>get_chi2_name\<close> holds for every \<open>s\<close>, the empty string and strings
  with the separator inside included.
\<close>

theorem undo_chi2_name_total:
  "length (chi2 OutPar @ derived_par_name_separator) = 6
   \<and> undo_chi2_name p = drop 6 p
   \<and> (length p < 6 \<longrightarrow> undo_chi2_name p = [])
   \<and> undo_chi2_name (get_chi2_name s) = s
   \<and> undo_chi2_name (get_chi2_name []) = []
   \<and> undo_chi2_name (get_chi2_name (a @ derived_par_name_separator @ b))
       = a @ derived_par_name_separator @ b"
proof -
  have short: "length p < 6 \<longrightarrow> undo_chi2_name p = []"
    by (simp add: undo_chi2_name_drop)
  show ?thesis
    by (intro conjI chi2_prefix_length undo_chi2_name_drop short undo_get_chi2_name)
qed

theorem undo_chi2_name_total_witness:
  "length ''chi2'' < 6 \<and> undo_chi2_name ''chi2'' = []"
  using undo_chi2_name_total [of "''chi2''"] by simp

text \<open>
  The claim C2 as the specification words it (a string that does not start with
  \<^verbatim>\<open>"chi2__"\<close> makes \<^verbatim>\<open>undo_chi2_name\<close> fail with \<^verbatim>\<open>InvalidNameError\<close>) does not hold of
  the module: \<^verbatim>\<open>"planck_2018"\<close> has no such prefix, and the call returns \<^verbatim>\<open>"_2018"\<close>.
\<close>

theorem undo_chi2_name_no_error:
  "\<not> startswith ''planck_2018'' ''chi2__''
   \<and> undo_chi2_name_outcome ''planck_2018'' = Inr ''_2018''
   \<and> undo_chi2_name_outcome ''planck_2018'' \<noteq> Inl InvalidNameError"
  by (simp add: startswith_def undo_chi2_name_outcome_def undo_chi2_name_drop)

text \<open>
  C2, amended. For every string that does not start with \<^verbatim>\<open>"chi2__"\<close>,
  \<^verbatim>\<open>undo_chi2_name\<close> raises nothing: it returns the string without its first 6
  characters. That result is not a decomposition of the input: composing it again with
  \<^verbatim>\<open>get_chi2_name\<close> does not give the input back.
\<close>

theorem undo_chi2_name_without_prefix:
  "\<not> startswith p ''chi2__''
   \<Longrightarrow> undo_chi2_name_outcome p = Inr (drop 6 p) \<and> get_chi2_name (drop 6 p) \<noteq> p"
proof -
  assume np: "\<not> startswith p ''chi2__''"
  have "get_chi2_name (drop 6 p) \<noteq> p"
  proof
    assume "get_chi2_name (drop 6 p) = p"
    then have "p = ''chi2__'' @ drop 6 p" by (simp only: get_chi2_name_append)
    then have "prefix ''chi2__'' p" by (metis prefixI)
    with np show False by (simp add: startswith_def)
  qed
  then show ?thesis by (simp add: undo_chi2_name_outcome_def undo_chi2_name_drop)
qed

theorem undo_chi2_name_without_prefix_witness:
  "\<not> startswith ''planck_2018'' ''chi2__''
   \<and> undo_chi2_name_outcome ''planck_2018'' = Inr ''_2018''
   \<and> get_chi2_name ''_2018'' \<noteq> ''planck_2018''"
proof -
  have np: "\<not> startswith ''planck_2018'' ''chi2__''" by (simp add: startswith_def)
  from np undo_chi2_name_without_prefix [OF np] show ?thesis by simp
qed

text \<open>
  C8. For every non-empty string \<open>s\<close> that does not contain the separator \<^verbatim>\<open>"__"\<close>,
  decomposing the composed \<^verbatim>\<open>minuslogprior\<close> name gives \<open>s\<close> back. The compose function is
  the module's \<^verbatim>\<open>get_minuslogpior_name\<close>; the decompose helper is the one modelled from
  the specification above.
\<close>

theorem minuslogprior_roundtrip:
  "s \<noteq> [] \<Longrightarrow> \<not> contains s derived_par_name_separator
   \<Longrightarrow> decomposeMinusLogPriorName (get_minuslogpior_name s) = Inr s"
  by (rule decompose_get_minuslogpior_name)

theorem minuslogprior_roundtrip_witness:
  "''H0'' \<noteq> [] \<and> \<not> contains ''H0'' derived_par_name_separator
   \<and> decomposeMinusLogPriorName (get_minuslogpior_name ''H0'') = Inr ''H0''"
proof -
  have ne: "''H0'' \<noteq> []" by simp
  have nc: "\<not> contains ''H0'' derived_par_name_separator"
    by (simp add: contains_def derived_par_name_separator_def sublist_code)
  from ne nc minuslogprior_roundtrip [OF ne nc] show ?thesis by blast
qed

subsection \<open>Subfolders\<close>

text \<open>
  The claim C5 as the specification words it fails in its second half: a key outside
  the three kinds, such as \<^verbatim>\<open>"prior"\<close>, makes \<^verbatim>\<open>subfolders[kind]\<close> raise the built-in
  \<^verbatim>\<open>KeyError\<close>, not an \<^verbatim>\<open>UnknownKindError\<close>.
\<close>

theorem subfolder_for_not_unknown_kind:
  "''prior'' \<notin> set ComponentKinds_fields
   \<and> subfolder_for ''prior'' = Inl KeyError
   \<and> subfolder_for ''prior'' \<noteq> Inl UnknownKindError"
  by (simp add: subfolder_for_cases ComponentKinds_fields_def)

text \<open>
  C5, amended. After the import, \<^verbatim>\<open>subfolders[kind]\<close> is a non-empty string for each of
  the three kinds (\<^verbatim>\<open>"likelihoods"\<close>, \<^verbatim>\<open>"samplers"\<close>, \<^verbatim>\<open>"theories"\<close>), and raises
  \<^verbatim>\<open>KeyError\<close> for every other string.
\<close>

theorem subfolder_for_closed_set:
  "(kind \<in> set ComponentKinds_fields \<longrightarrow> (\<exists>v. subfolder_for kind = Inr v \<and> v \<noteq> []))
   \<and> (kind \<notin> set ComponentKinds_fields \<longrightarrow> subfolder_for kind = Inl KeyError)
   \<and> subfolder_for ''likelihood'' = Inr ''likelihoods''
   \<and> subfolder_for ''sampler'' = Inr ''samplers''
   \<and> subfolder_for ''theory'' = Inr ''theories''"
  by (auto simp add: subfolder_for_cases ComponentKinds_fields_def)

theorem subfolder_for_closed_set_witness:
  "''sampler'' \<in> set ComponentKinds_fields
   \<and> (\<exists>v. subfolder_for ''sampler'' = Inr v \<and> v \<noteq> [])
   \<and> ''prior'' \<notin> set ComponentKinds_fields
   \<and> subfolder_for ''prior'' = Inl KeyError"
proof -
  have i: "''sampler'' \<in> set ComponentKinds_fields" by (simp add: ComponentKinds_fields_def)
  have o: "''prior'' \<notin> set ComponentKinds_fields" by (simp add: ComponentKinds_fields_def)
  from i o subfolder_for_closed_set [of "''sampler''"] subfolder_for_closed_set [of "''prior''"]
  show ?thesis by blast
qed

subsection \<open>Reserved attributes\<close>

text \<open>
  C6. After the import, \<^verbatim>\<open>"input_params" in reserved_attributes\<close> is true and
  \<^verbatim>\<open>"arbitrary_unrelated_name" in reserved_attributes\<close> is false; the two answers are the
  same at every point of the module from line 27 on, under the first binding of the
  name as under the second.
\<close>

theorem reserved_membership_stable:
  "is_reserved ''input_params'' = Inr True
   \<and> is_reserved ''arbitrary_unrelated_name'' = Inr False
   \<and> (2 \<le> n \<longrightarrow> is_reserved_upto n ''input_params'' = Inr True
                \<and> is_reserved_upto n ''arbitrary_unrelated_name'' = Inr False)"
  by (simp add: is_reserved_def conventions_value reserved_attributes_contains_def
      is_reserved_upto_stable)

theorem reserved_membership_stable_witness:
  "(2::nat) \<le> 2 \<and> is_reserved_upto 2 ''input_params'' = Inr True
   \<and> is_reserved_upto 2 ''arbitrary_unrelated_name'' = Inr False"
  using reserved_membership_stable [of 2] by simp

text \<open>
  C10. The set bound to \<^verbatim>\<open>reserved_attributes\<close> after the import is exactly
  \<^verbatim>\<open>{"input_params", "output_params", "install_options", "bibtex_file"}\<close>: the assignment
  of line 179 replaces the one of line 27, whose set also had \<^verbatim>\<open>"file_base_name"\<close>. The
  membership test for \<^verbatim>\<open>"file_base_name"\<close> is true before line 179 and false from there on.
\<close>

theorem reserved_attributes_effective:
  "(\<exists>g. conventions = Inr g \<and> reserved_attributes g
       = Some {''input_params'', ''output_params'', ''install_options'', ''bibtex_file''})
   \<and> is_reserved ''file_base_name'' = Inr False
   \<and> is_reserved_upto 2 ''file_base_name'' = Inr True
   \<and> is_reserved_upto 4 ''file_base_name'' = Inr True
   \<and> is_reserved_upto 5 ''file_base_name'' = Inr False"
proof -
  have e: "2 \<in> {2, 3, 4::nat}" "4 \<in> {2, 3, 4::nat}" by simp_all
  have "is_reserved_upto 2 ''file_base_name'' = Inr True"
    using reserved_upto_early [OF e(1)]
    by (auto simp add: is_reserved_upto_def reserved_attributes_contains_def)
  moreover have "is_reserved_upto 4 ''file_base_name'' = Inr True"
    using reserved_upto_early [OF e(2)]
    by (auto simp add: is_reserved_upto_def reserved_attributes_contains_def)
  moreover have "is_reserved_upto 5 ''file_base_name'' = Inr False"
    using reserved_upto_5
    by (auto simp add: is_reserved_upto_def reserved_attributes_contains_def)
  ultimately show ?thesis
    by (simp add: is_reserved_def conventions_value reserved_attributes_contains_def)
qed

end
